theory Spec2Isabelle
  imports Complex_Main "HOL-Library.Multiset"
begin

section \<open>Data model of \<^verbatim>\<open>pyTecanFluent/Pool.py\<close>\<close>

text \<open>
  The sample table is a pandas data frame. A row of the table that \<^verbatim>\<open>sample2df\<close> returns
  has the five required columns. The names of these columns are options of the command
  line (see \<open>args\<close> below); a row is a record with one field for each of the five
  columns, called after the default name of the column: \<open>Sample\<close> holds the column named
  by \<^verbatim>\<open>--sample-col\<close>, \<open>Call\<close> the one named by \<^verbatim>\<open>--include-col\<close>, \<open>labware_name\<close> the
  one named by \<^verbatim>\<open>--sample-labware-name\<close>, \<open>labware_type\<close> the one named by
  \<^verbatim>\<open>--sample-labware-type\<close> and \<open>Well\<close> the one named by \<^verbatim>\<open>--position-col\<close>. The functions
  that receive column names as arguments (\<^verbatim>\<open>add_dest\<close>, \<^verbatim>\<open>pool_samples\<close>) read these fields.
  The well has already been converted to a position (an integer) by \<^verbatim>\<open>sample2df\<close>.
  \<^verbatim>\<open>add_dest\<close> joins three destination columns to every row.
\<close>

record sample_row =
  Sample :: string
  Call :: string
  labware_name :: string
  labware_type :: string
  Well :: int

record dest_row = sample_row +
  TECAN_dest_labware_name :: string
  TECAN_dest_labware_type :: string
  TECAN_dest_target_position :: int

text \<open>The exceptions that the modelled part of the module can raise.\<close>

datatype error =
    ValueError string
  | ZeroDivisionError
  | NameError string
  | KeyError string
  | AttributeError string

text \<open>
  The worklist commands of \<^verbatim>\<open>Fluent\<close> that \<^verbatim>\<open>pool_samples\<close> creates. \<^verbatim>\<open>Waste\<close> drops the
  tip, \<^verbatim>\<open>Flush\<close> keeps it. The module \<^verbatim>\<open>Fluent\<close> is not part of the modelled file: the
  worklist object \<^verbatim>\<open>gwl\<close> is taken to be the list of the commands added to it, in order,
  and \<^verbatim>\<open>gwl.add\<close> to append a command and return normally. The volume is a float that
  is only handed on to the commands; it is a real number here.
\<close>

datatype cmd =
    Comment string
  | Aspirate (RackLabel: string) (RackType: string) (Position: int)
             (Volume: real) (LiquidClass: string)
  | Dispense (RackLabel: string) (RackType: string) (Position: int)
             (Volume: real) (LiquidClass: string)
  | Waste
  | Flush

definition gwl_add :: "cmd list \<Rightarrow> cmd \<Rightarrow> cmd list" where
  "gwl_add gwl c = gwl @ [c]"

text \<open>A value that a lookup in the labware database of \<^verbatim>\<open>Fluent\<close> may return.\<close>

datatype pyval = PyNone | PyInt int | PyStr string

text \<open>
  The options of the command line that the modelled part of \<^verbatim>\<open>main\<close> reads: the names of
  the five columns of the sample table, the pooling options and the destination labware.
\<close>

record args =
  sample_col :: string
  include_col :: string
  sample_labware_name :: string
  sample_labware_type :: string
  position_col :: string
  dest_name :: string
  dest_type :: string
  dest_start :: int
  volume :: real
  liq_cls :: string
  new_tips :: bool

section \<open>\<^verbatim>\<open>add_dest\<close>\<close>

text \<open>
  \<^verbatim>\<open>round(a / b, 0)\<close> of Python 3 for integers \<open>a\<close> and \<open>b \<noteq> 0\<close>: the quotient rounded to
  the nearest integer, a tie going to the even neighbour. The quotient is taken exactly;
  the floating-point quotient rounds the same way for all table sizes a machine can hold.
  With \<open>q = a div b\<close> and \<open>r = a mod b\<close> the fractional part of the quotient is
  \<open>\<bar>r\<bar> / \<bar>b\<bar>\<close>.
\<close>

definition py_round_quot :: "int \<Rightarrow> int \<Rightarrow> int" where
  "py_round_quot a b =
     (let q = a div b; r = a mod b
      in if 2 * \<bar>r\<bar> < \<bar>b\<bar> then q
         else if 2 * \<bar>r\<bar> > \<bar>b\<bar> then q + 1
         else if even q then q else q + 1)"

text \<open>
  \<^verbatim>\<open>n_dest_plates = round(df_dest.shape[0] / positions + 0.5, 0)\<close>, where
  \<^verbatim>\<open>df_dest.shape[0]\<close> is the number of rows of the table:
  \<open>rows / positions + 1/2 = (2 * rows + positions) / (2 * positions)\<close>.
\<close>

definition n_dest_plates :: "int \<Rightarrow> int \<Rightarrow> int" where
  "n_dest_plates rows positions = py_round_quot (2 * rows + positions) (2 * positions)"

text \<open>
  The dictionary \<^verbatim>\<open>samples\<close> is an association list in insertion order; a key is added
  only when it is absent, so the length of the list is \<^verbatim>\<open>len(samples.keys())\<close>.
  \<^verbatim>\<open>
        try:
            dest_position = samples[sample]
        except KeyError:
            dest_position = len(samples.keys()) + 1
            samples[sample] = dest_position
  \<close>
\<close>

definition samples_lookup :: "(string \<times> int) list \<Rightarrow> string \<Rightarrow> int \<times> (string \<times> int) list" where
  "samples_lookup samples sample =
     (case map_of samples sample of
        Some dest_position \<Rightarrow> (dest_position, samples)
      | None \<Rightarrow>
          (let dest_position = int (length samples) + 1
           in (dest_position, samples @ [(sample, dest_position)])))"

text \<open>
  The Sample Register: the \<^verbatim>\<open>try\<close> block alone, run over the column of sample names from
  a given dictionary. It yields the \<^verbatim>\<open>dest_position\<close> that each row has before the
  wrap-around; \<open>add_dest_loop_register\<close> below shows that the loop of \<^verbatim>\<open>add_dest\<close> assigns
  exactly these numbers.
\<close>

fun sample_register :: "(string \<times> int) list \<Rightarrow> string list \<Rightarrow> int list" where
  "sample_register samples [] = []"
| "sample_register samples (sample # ss) =
     (case samples_lookup samples sample of
        (dest_position, samples') \<Rightarrow> dest_position # sample_register samples' ss)"

text \<open>\<^verbatim>\<open>Series.unique()\<close> of pandas: the distinct values in order of first appearance.\<close>

primrec unique :: "'a list \<Rightarrow> 'a list" where
  "unique [] = []"
| "unique (x # xs) = x # filter (\<lambda>y. y \<noteq> x) (unique xs)"

text \<open>
  The invariant of the dictionary after the names \<open>pre\<close> have been registered: its keys
  are the distinct names in order of first appearance, numbered from 1.
\<close>

definition reg_inv :: "(string \<times> int) list \<Rightarrow> string list \<Rightarrow> bool" where
  "reg_inv samples pre \<longleftrightarrow>
     map fst samples = unique pre \<and> (\<forall>j<length samples. snd (samples ! j) = int j + 1)"

text \<open>
  \<^verbatim>\<open>dest_position = positions if dest_position % positions == 0 else dest_position % positions\<close>.
  Python's \<^verbatim>\<open>%\<close> on integers is \<open>mod\<close> of HOL: the result has the sign of the divisor.
\<close>

definition wrap_position :: "int \<Rightarrow> int \<Rightarrow> int" where
  "wrap_position positions dest_position =
     (if dest_position mod positions = 0 then positions else dest_position mod positions)"

definition join_dest :: "sample_row \<Rightarrow> string \<Rightarrow> string \<Rightarrow> int \<Rightarrow> dest_row" where
  "join_dest r dest_labware dtype dest_position =
     \<lparr>Sample = Sample r, Call = Call r, labware_name = labware_name r,
      labware_type = labware_type r, Well = Well r,
      TECAN_dest_labware_name = dest_labware,
      TECAN_dest_labware_type = dtype,
      TECAN_dest_target_position = dest_position\<rparr>"

text \<open>
  The loop over the rows of the table. With more than one destination plate the body
  computes a plate number \<^verbatim>\<open>x\<close> from the row index and \<^verbatim>\<open>dest_start\<close> and then formats
  the plate name from \<^verbatim>\<open>orig_dest_labware\<close>, a name that the module binds nowhere: the
  lookup raises \<^verbatim>\<open>NameError\<close> before \<^verbatim>\<open>x\<close> is used, so \<^verbatim>\<open>x\<close> is not modelled. This is the
  only use of the row index and of \<^verbatim>\<open>dest_start\<close> in the loop.
\<close>

fun add_dest_loop ::
  "int \<Rightarrow> int \<Rightarrow> string \<Rightarrow> string \<Rightarrow> (string \<times> int) list \<Rightarrow> sample_row list
     \<Rightarrow> error + dest_row list" where
  "add_dest_loop positions n_plates dest_labware dtype samples [] = Inr []"
| "add_dest_loop positions n_plates dest_labware dtype samples (r # rs) =
     (case samples_lookup samples (Sample r) of
        (dest_position, samples') \<Rightarrow>
          if n_plates > 1 then Inl (NameError ''orig_dest_labware'')
          else
            (case add_dest_loop positions n_plates dest_labware dtype samples' rs of
               Inl e \<Rightarrow> Inl e
             | Inr df_dest \<Rightarrow>
                 Inr (join_dest r dest_labware dtype (wrap_position positions dest_position)
                      # df_dest)))"

text \<open>
  \<^verbatim>\<open>add_dest\<close>. The lookup \<^verbatim>\<open>Labware.utils().get_wells\<close> is not part of the module and is a
  parameter: \<open>None\<close> is Python's \<^verbatim>\<open>None\<close>. The result is the pair of the lines printed to
  the standard error stream and of the joined table or the exception raised.
\<close>

definition overflow_warning :: string where
  "overflow_warning =
     ''WARNING: Not enough wells for the number of samples. Using multiple destination plates''"

definition no_wells_msg :: "string \<Rightarrow> string" where
  \<open>no_wells_msg dtype = ''RackType has no "wells" value: "'' @ dtype @ ''"''\<close>

definition add_dest ::
  "(string \<Rightarrow> int option) \<Rightarrow> sample_row list \<Rightarrow> string \<Rightarrow> string \<Rightarrow> int
     \<Rightarrow> string list \<times> (error + dest_row list)" where
  "add_dest get_wells df dest_labware dtype dstart =
     (case get_wells dtype of
        None \<Rightarrow> ([], Inl (ValueError (no_wells_msg dtype)))
      | Some positions \<Rightarrow>
          if positions = 0 then ([], Inl ZeroDivisionError)
          else
            (let n_plates = n_dest_plates (int (length df)) positions;
                 stderr = (if n_plates > 1 then [overflow_warning] else [])
             in (stderr, add_dest_loop positions n_plates dest_labware dtype [] df)))"

section \<open>\<^verbatim>\<open>check_rack_labels\<close>\<close>

text \<open>\<^verbatim>\<open>y.replace('.', '_')\<close> replaces every occurrence.\<close>

definition replace_dot :: "string \<Rightarrow> string" where
  "replace_dot y = map (\<lambda>c. if c = CHR ''.'' then CHR ''_'' else c) y"

text \<open>
  \<^verbatim>\<open>check_rack_labels\<close> on a table whose source labware column has the name
  \<^verbatim>\<open>labware_name\<close>, the default of \<^verbatim>\<open>--sample-labware-name\<close>: the function cleans the two
  columns \<^verbatim>\<open>'labware_name'\<close> and \<^verbatim>\<open>'TECAN_dest_labware_name'\<close>.
\<close>

definition check_rack_labels :: "dest_row list \<Rightarrow> dest_row list" where
  "check_rack_labels df_samp =
     map (\<lambda>r. r\<lparr>labware_name := replace_dot (labware_name r),
               TECAN_dest_labware_name := replace_dot (TECAN_dest_labware_name r)\<rparr>) df_samp"

text \<open>
  \<^verbatim>\<open>check_rack_labels\<close> on the table of a run with any column names. The function takes
  the first column by the fixed name \<^verbatim>\<open>'labware_name'\<close>, whatever \<^verbatim>\<open>--sample-labware-name\<close>
  is. \<open>find_column\<close> gives the column of the sample table that has a given name. With no
  such column \<^verbatim>\<open>df_samp[x]\<close> raises \<^verbatim>\<open>KeyError\<close>; when the column is the one of the
  positions, its values are integers and \<^verbatim>\<open>y.replace\<close> raises \<^verbatim>\<open>AttributeError\<close> at the
  first row. The five column names are taken to be different from each other and from
  the three destination columns (\<open>usable_columns\<close>), as in the table of any run that
  gets this far with one column for each role.
\<close>

datatype column =
    Sample_column
  | Include_column
  | Labware_name_column
  | Labware_type_column
  | Position_column

definition usable_columns :: "args \<Rightarrow> bool" where
  "usable_columns a \<longleftrightarrow>
     distinct [sample_col a, include_col a, sample_labware_name a, sample_labware_type a,
               position_col a, ''TECAN_dest_labware_name'', ''TECAN_dest_labware_type'',
               ''TECAN_dest_target_position'']"

definition find_column :: "args \<Rightarrow> string \<Rightarrow> column option" where
  "find_column a x =
     (if x = sample_col a then Some Sample_column
      else if x = include_col a then Some Include_column
      else if x = sample_labware_name a then Some Labware_name_column
      else if x = sample_labware_type a then Some Labware_type_column
      else if x = position_col a then Some Position_column
      else None)"

definition replace_in_column :: "column \<Rightarrow> dest_row list \<Rightarrow> error + dest_row list" where
  "replace_in_column c df_samp =
     (case c of
        Sample_column \<Rightarrow> Inr (map (\<lambda>r. r\<lparr>Sample := replace_dot (Sample r)\<rparr>) df_samp)
      | Include_column \<Rightarrow> Inr (map (\<lambda>r. r\<lparr>Call := replace_dot (Call r)\<rparr>) df_samp)
      | Labware_name_column \<Rightarrow>
          Inr (map (\<lambda>r. r\<lparr>labware_name := replace_dot (labware_name r)\<rparr>) df_samp)
      | Labware_type_column \<Rightarrow>
          Inr (map (\<lambda>r. r\<lparr>labware_type := replace_dot (labware_type r)\<rparr>) df_samp)
      | Position_column \<Rightarrow>
          if df_samp = [] then Inr df_samp else Inl (AttributeError ''replace''))"

definition check_rack_labels_named :: "args \<Rightarrow> dest_row list \<Rightarrow> error + dest_row list" where
  "check_rack_labels_named a df_samp =
     (case find_column a ''labware_name'' of
        None \<Rightarrow> Inl (KeyError ''labware_name'')
      | Some c \<Rightarrow>
          (case replace_in_column c df_samp of
             Inl e \<Rightarrow> Inl e
           | Inr df1 \<Rightarrow>
               Inr (map (\<lambda>r. r\<lparr>TECAN_dest_labware_name :=
                                 replace_dot (TECAN_dest_labware_name r)\<rparr>) df1)))"

section \<open>\<^verbatim>\<open>pool_samples\<close>\<close>

text \<open>
  The inner loop over the replicates of one sample (the rows of \<^verbatim>\<open>df_sub\<close>), adding the
  commands to the worklist.
\<close>

fun replicate_loop :: "dest_row list \<Rightarrow> real \<Rightarrow> string \<Rightarrow> bool \<Rightarrow> cmd list \<Rightarrow> cmd list" where
  "replicate_loop [] vol lc nt gwl = gwl"
| "replicate_loop (r # rs) vol lc nt gwl =
     (let asp = Aspirate (labware_name r) (labware_type r) (Well r) vol lc;
          gwl1 = gwl_add gwl asp;
          disp = Dispense (TECAN_dest_labware_name r) (TECAN_dest_labware_type r)
                          (TECAN_dest_target_position r) vol lc;
          gwl2 = gwl_add gwl1 disp;
          gwl3 = (if nt = True then gwl_add gwl2 Waste else gwl_add gwl2 Flush)
      in replicate_loop rs vol lc nt gwl3)"

text \<open>The outer loop over the sample names.\<close>

fun sample_loop ::
  "dest_row list \<Rightarrow> string list \<Rightarrow> real \<Rightarrow> string \<Rightarrow> bool \<Rightarrow> cmd list \<Rightarrow> cmd list" where
  "sample_loop df [] vol lc nt gwl = gwl"
| "sample_loop df (sample # ss) vol lc nt gwl =
     (let df_sub = filter (\<lambda>r. Sample r = sample) df;
          gwl1 = replicate_loop df_sub vol lc nt gwl;
          gwl2 = (if nt = False then gwl_add gwl1 Waste else gwl1)
      in sample_loop df ss vol lc nt gwl2)"

text \<open>
  \<^verbatim>\<open>pool_samples\<close>. \<^verbatim>\<open>df.sort_values('TECAN_dest_target_position')\<close> is the parameter
  \<open>sort_values\<close>: pandas sorts with its default algorithm, which need not keep the order of
  rows with equal keys, so the theorems below assume of it only what they need (that the
  result holds the same rows, in ascending order of the key).
\<close>

definition pool_samples ::
  "(dest_row list \<Rightarrow> dest_row list) \<Rightarrow> dest_row list \<Rightarrow> cmd list \<Rightarrow> real \<Rightarrow> string \<Rightarrow> bool
     \<Rightarrow> cmd list" where
  "pool_samples sort_values df gwl vol lc nt =
     (let gwl0 = gwl_add gwl (Comment ''Sample pooling'');
          df' = sort_values df
      in sample_loop df' (unique (map Sample df')) vol lc nt gwl0)"

text \<open>
  Closed forms used to state what the loops add to the worklist: the three commands of
  one replicate, and the commands of one sample (of one pass of the outer loop).
\<close>

definition replicate_cmds :: "dest_row \<Rightarrow> real \<Rightarrow> string \<Rightarrow> bool \<Rightarrow> cmd list" where
  "replicate_cmds r vol lc nt =
     [Aspirate (labware_name r) (labware_type r) (Well r) vol lc,
      Dispense (TECAN_dest_labware_name r) (TECAN_dest_labware_type r)
               (TECAN_dest_target_position r) vol lc,
      if nt then Waste else Flush]"

definition sample_cmds :: "dest_row list \<Rightarrow> real \<Rightarrow> string \<Rightarrow> bool \<Rightarrow> cmd list" where
  "sample_cmds df_sub vol lc nt =
     concat (map (\<lambda>r. replicate_cmds r vol lc nt) df_sub) @ (if nt then [] else [Waste])"

text \<open>The rows of a table that carry a given sample name, in the order of the table.\<close>

definition rows_of :: "dest_row list \<Rightarrow> string \<Rightarrow> dest_row list" where
  "rows_of df sample = filter (\<lambda>r. Sample r = sample) df"

section \<open>\<^verbatim>\<open>main\<close>, from the include filter to the worklist\<close>

text \<open>
  The part of \<^verbatim>\<open>main\<close> between the loading of the tables and the writing of the files.
  \<open>df_samp\<close> is the joined sample table, \<open>get_labware_wells\<close> is the lookup
  \<^verbatim>\<open>gwl.db.get_labware_wells\<close> of \<^verbatim>\<open>Fluent\<close>, taken as a parameter; the constructor
  \<^verbatim>\<open>Fluent.gwl\<close> and the lookup \<^verbatim>\<open>gwl.db.get_labware\<close> are taken to return normally (they
  run after \<^verbatim>\<open>add_dest\<close> and \<^verbatim>\<open>check_rack_labels\<close>). \<^verbatim>\<open>main\<close> hands the column names of
  the options to \<^verbatim>\<open>add_dest\<close> and \<^verbatim>\<open>pool_samples\<close>, which read the fields of the rows, and
  none to \<^verbatim>\<open>check_rack_labels\<close>, which looks its column up by name. The module calls
  \<^verbatim>\<open>reorder_384well\<close> for a plate of 384 wells and defines or imports no such function, so
  that call raises \<^verbatim>\<open>NameError\<close>. The result is the output on the standard error stream
  and the worklist that is then written, or the exception that ends the run.
\<close>

definition main ::
  "(string \<Rightarrow> int option) \<Rightarrow> (string \<Rightarrow> pyval) \<Rightarrow> (dest_row list \<Rightarrow> dest_row list)
     \<Rightarrow> sample_row list \<Rightarrow> args \<Rightarrow> string list \<times> (error + cmd list)" where
  "main get_wells get_labware_wells sort_values df_samp a =
     (let df1 = filter (\<lambda>r. Call r \<in> set [''success'', ''pass'', ''include'']) df_samp
      in case add_dest get_wells df1 (dest_name a) (dest_type a) (dest_start a) of
           (stderr, Inl e) \<Rightarrow> (stderr, Inl e)
         | (stderr, Inr df2) \<Rightarrow>
             (case check_rack_labels_named a df2 of
                Inl e \<Rightarrow> (stderr, Inl e)
              | Inr df3 \<Rightarrow>
                  (let gwl = [];
                       n_wells = get_labware_wells (dest_type a)
                   in if n_wells = PyStr ''384''
                      then (stderr, Inl (NameError ''reorder_384well''))
                      else (stderr,
                            Inr (pool_samples sort_values df3 gwl
                                   (volume a) (liq_cls a) (new_tips a))))))"

section \<open>The formulas of the specification\<close>

text \<open>
  The destination of the sample with ordinal \<open>n\<close> as the specification words it, for a
  plate of \<open>capacity\<close> wells and the starting offset \<open>s\<close>.
\<close>

definition spec_absolute_index :: "int \<Rightarrow> int \<Rightarrow> int" where
  "spec_absolute_index s n = n - 1 + (s - 1)"

definition spec_target_position :: "int \<Rightarrow> int \<Rightarrow> int \<Rightarrow> int" where
  "spec_target_position capacity s n = spec_absolute_index s n mod capacity + 1"

definition spec_plate_instance :: "int \<Rightarrow> int \<Rightarrow> int \<Rightarrow> int" where
  "spec_plate_instance capacity s n = spec_absolute_index s n div capacity + 1"

text \<open>
  The DestinationAssignment of a row of the joined table: destination plate (by its
  labware name), labware type and target position.
\<close>

definition assignment :: "dest_row \<Rightarrow> string \<times> string \<times> int" where
  "assignment r =
     (TECAN_dest_labware_name r, TECAN_dest_labware_type r, TECAN_dest_target_position r)"


text \<open>The position of the first occurrence of a value in a list that contains it.\<close>

fun index_of :: "'a list \<Rightarrow> 'a \<Rightarrow> nat" where
  "index_of [] y = 0"
| "index_of (x # xs) y = (if x = y then 0 else Suc (index_of xs y))"

section \<open>Inputs of the worked examples\<close>

text \<open>
  A row of the sample table with a given sample name and source position, and a Position
  Directory that knows one plate type and its number of wells.
\<close>

definition example_row :: "string \<Rightarrow> int \<Rightarrow> sample_row" where
  "example_row name pos =
     \<lparr>Sample = name, Call = ''pass'', labware_name = ''PCR.plate 1'',
      labware_type = ''96 Well Eppendorf TwinTec PCR'', Well = pos\<rparr>"

definition one_plate_type :: "string \<Rightarrow> int \<Rightarrow> string \<Rightarrow> int option" where
  "one_plate_type dtype wells = (\<lambda>t. if t = dtype then Some wells else None)"

text \<open>
  A run of \<^verbatim>\<open>main\<close> on one sample with three replicates, on a plate of 96 wells, with
  the default column names and \<^verbatim>\<open>--new-tips\<close> not given; the table is sorted by a stable
  insertion sort.
\<close>

definition example_args :: args where
  "example_args =
     \<lparr>sample_col = ''Sample'', include_col = ''Call'', sample_labware_name = ''labware_name'',
      sample_labware_type = ''labware_type'', position_col = ''Well'',
      dest_name = ''Pooled DNA plate'', dest_type = ''T'', dest_start = 1,
      volume = 30, liq_cls = ''X'', new_tips = False\<rparr>"

definition three_replicates_run :: "string list \<times> (error + cmd list)" where
  "three_replicates_run =
     main (one_plate_type ''T'' 96) (\<lambda>t. PyInt 96) (sort_key TECAN_dest_target_position)
       [example_row ''A'' 1, example_row ''A'' 2, example_row ''A'' 3] example_args"

text \<open>
  Two runs of \<^verbatim>\<open>main\<close> on one row whose source labware is named \<^verbatim>\<open>PCR.plate 1\<close>, with
  \<^verbatim>\<open>--sample-labware-name plate\<close>: in the first the include column is named
  \<^verbatim>\<open>labware_name\<close> (\<^verbatim>\<open>--include-col labware_name\<close>), in the second no column has that
  name.
\<close>

definition renamed_columns_run :: "string list \<times> (error + cmd list)" where
  "renamed_columns_run =
     main (one_plate_type ''T'' 96) (\<lambda>t. PyInt 96) (sort_key TECAN_dest_target_position)
       [example_row ''A'' 1]
       (example_args\<lparr>sample_labware_name := ''plate'', include_col := ''labware_name''\<rparr>)"

definition missing_column_run :: "string list \<times> (error + cmd list)" where
  "missing_column_run =
     main (one_plate_type ''T'' 96) (\<lambda>t. PyInt 96) (sort_key TECAN_dest_target_position)
       [example_row ''A'' 1]
       (example_args\<lparr>sample_labware_name := ''plate''\<rparr>)"


section \<open>The number of destination plates\<close>


lemma py_round_quot_ge: "a div b \<le> py_round_quot a b"
  by (simp add: py_round_quot_def Let_def)

lemma n_dest_plates_small:
  assumes "0 < p" "0 \<le> n" "n < p"
  shows "n_dest_plates n p \<le> 1"
proof -
  let ?a = "2 * n + p" and ?b = "2 * p"
  consider "n = 0" | "0 < n" "2 * n < p" | "p \<le> 2 * n" using assms(2) by fastforce
  then show ?thesis
  proof cases
    case 1
    then have "?a div ?b = 0" "?a mod ?b = p" using assms by simp_all
    then show ?thesis using assms by (simp add: n_dest_plates_def py_round_quot_def)
  next
    case 2
    then have "?a div ?b = 0" "?a mod ?b = ?a" using assms by simp_all
    then show ?thesis using assms 2 by (simp add: n_dest_plates_def py_round_quot_def)
  next
    case 3
    have "?a = ?b * 1 + (2 * n - p)" by simp
    then have "?a div ?b = 1" "?a mod ?b = 2 * n - p"
      using assms 3 int_div_pos_eq[of ?a ?b 1 "2 * n - p"] int_mod_pos_eq[of ?a ?b 1 "2 * n - p"]
      by simp_all
    then show ?thesis using assms 3 by (simp add: n_dest_plates_def py_round_quot_def)
  qed
qed

lemma n_dest_plates_large:
  assumes "0 < p" "p \<le> n"
  shows "1 < n_dest_plates n p"
proof -
  let ?a = "2 * n + p" and ?b = "2 * p"
  define q where "q = ?a div ?b"
  define r where "r = ?a mod ?b"
  have eq: "?a = ?b * q + r" and r: "0 \<le> r" "r < ?b"
    using assms by (simp_all add: q_def r_def)
  have q1: "1 \<le> q"
  proof (rule ccontr)
    assume "\<not> 1 \<le> q"
    then have "q \<le> 0" by simp
    then have "?b * q \<le> 0" using assms by (simp add: mult_nonneg_nonpos)
    then show False using eq r assms by linarith
  qed
  show ?thesis
  proof (cases "q = 1")
    case True
    then have "r = 2 * n - p" using eq by simp
    then have "\<not> 2 * \<bar>r\<bar> < \<bar>?b\<bar>" using assms by simp
    then show ?thesis using True
      by (simp add: n_dest_plates_def py_round_quot_def Let_def q_def[symmetric] r_def[symmetric])
  next
    case False
    then have "2 \<le> q" using q1 by simp
    then show ?thesis using py_round_quot_ge[of ?a ?b]
      by (simp add: n_dest_plates_def q_def)
  qed
qed

lemma n_dest_plates_gt1_iff: "0 < p \<Longrightarrow> 0 \<le> n \<Longrightarrow> (1 < n_dest_plates n p) = (p \<le> n)"
  using n_dest_plates_small[of p n] n_dest_plates_large[of p n] by fastforce


section \<open>The Sample Register\<close>


lemma set_unique [simp]: "set (unique xs) = set xs"
  by (induction xs) auto

lemma distinct_unique [simp]: "distinct (unique xs)"
  by (induction xs) auto

lemma unique_append:
  "unique (xs @ ys) = unique xs @ filter (\<lambda>y. y \<notin> set xs) (unique ys)"
proof (induction xs)
  case Nil
  then show ?case by simp
next
  case (Cons x xs)
  have "(\<lambda>y. y \<noteq> x \<and> y \<notin> set xs) = (\<lambda>y. y \<notin> set xs \<and> y \<noteq> x)" by auto
  with Cons show ?case by (simp add: conj_commute)
qed

lemma unique_snoc:
  "unique (xs @ [x]) = unique xs @ (if x \<in> set xs then [] else [x])"
  by (simp add: unique_append)

lemma length_unique: "length (unique xs) = card (set xs)"
  using distinct_card[of "unique xs"] by simp

lemma reg_inv_lookup:
  assumes "reg_inv S pre" "samples_lookup S x = (p, S')"
  shows "reg_inv S' (pre @ [x]) \<and>
         (\<exists>j<length (unique (pre @ [x])). unique (pre @ [x]) ! j = x \<and> p = int j + 1)"
proof (cases "map_of S x")
  case None
  then have notin: "x \<notin> set pre"
    using assms(1) by (metis reg_inv_def map_of_eq_None_iff set_map set_unique)
  from None assms(2) have p: "p = int (length S) + 1" and S': "S' = S @ [(x, p)]"
    by (auto simp: samples_lookup_def Let_def)
  have len: "length (unique pre) = length S"
    using assms(1) by (metis reg_inv_def length_map)
  have "reg_inv S' (pre @ [x])"
    using assms(1) notin p S' by (auto simp: reg_inv_def unique_snoc nth_append)
  moreover have "unique (pre @ [x]) ! length S = x" "length S < length (unique (pre @ [x]))"
    using notin len by (simp_all add: unique_snoc nth_append)
  ultimately show ?thesis using p by blast
next
  case (Some v)
  with assms(2) have p: "p = v" and S': "S' = S" by (auto simp: samples_lookup_def)
  from Some have "(x, v) \<in> set S" by (rule map_of_SomeD)
  then obtain j where j: "j < length S" "S ! j = (x, v)" by (auto simp: in_set_conv_nth)
  then have v: "v = int j + 1" using assms(1) by (auto simp: reg_inv_def)
  have len: "length (unique pre) = length S"
    using assms(1) by (metis reg_inv_def length_map)
  have xj: "unique pre ! j = x"
    using assms(1) j by (metis reg_inv_def fst_conv nth_map)
  then have xin: "x \<in> set pre" using j len by (metis nth_mem set_unique)
  then have "unique (pre @ [x]) = unique pre" by (simp add: unique_snoc)
  then show ?thesis using assms(1) S' p v xj j len xin by (auto simp: reg_inv_def)
qed

lemma length_sample_register [simp]: "length (sample_register S xs) = length xs"
  by (induction xs arbitrary: S) (auto split: prod.splits)

lemma sample_register_nth:
  assumes "reg_inv S pre" "i < length xs" "k < length (unique (pre @ xs))"
          "xs ! i = unique (pre @ xs) ! k"
  shows "sample_register S xs ! i = int k + 1"
  using assms
proof (induction xs arbitrary: S pre i)
  case Nil
  then show ?case by simp
next
  case (Cons x xs)
  obtain p S' where look: "samples_lookup S x = (p, S')" by (cases "samples_lookup S x")
  from reg_inv_lookup[OF Cons.prems(1) look]
  obtain j where inv': "reg_inv S' (pre @ [x])"
    and j: "j < length (unique (pre @ [x]))" "unique (pre @ [x]) ! j = x" "p = int j + 1"
    by blast
  have app: "unique (pre @ x # xs) = unique ((pre @ [x]) @ xs)" by simp
  show ?case
  proof (cases i)
    case 0
    have "unique (pre @ x # xs) ! j = x"
      using j unfolding app unique_append[of "pre @ [x]" xs] by (simp add: nth_append)
    moreover have "j < length (unique (pre @ x # xs))"
      using j unfolding app unique_append[of "pre @ [x]" xs] by simp
    ultimately have "j = k"
      using Cons.prems 0 by (metis distinct_unique nth_eq_iff_index_eq nth_Cons_0)
    then show ?thesis using 0 look j by simp
  next
    case (Suc i')
    have "sample_register S' xs ! i' = int k + 1"
      using Cons.IH[OF inv', of i'] Cons.prems Suc by simp
    then show ?thesis using Suc look by simp
  qed
qed

lemma reg_inv_empty: "reg_inv [] []"
  by (simp add: reg_inv_def)

lemma sample_register_index:
  assumes "i < length xs"
  shows "\<exists>k<length (unique xs). xs ! i = unique xs ! k \<and> sample_register [] xs ! i = int k + 1"
proof -
  have "xs ! i \<in> set (unique xs)" using assms by simp
  then obtain k where k: "k < length (unique xs)" "unique xs ! k = xs ! i"
    by (metis in_set_conv_nth)
  then have "sample_register [] xs ! i = int k + 1"
    using sample_register_nth[OF reg_inv_empty, of i xs k] assms by simp
  with k show ?thesis by auto
qed

lemma sample_register_eq_iff:
  assumes "i < length xs" "j < length xs"
  shows "sample_register [] xs ! i = sample_register [] xs ! j \<longleftrightarrow> xs ! i = xs ! j"
proof -
  obtain k where k: "k < length (unique xs)" "xs ! i = unique xs ! k"
      "sample_register [] xs ! i = int k + 1"
    using sample_register_index[OF assms(1)] by blast
  obtain l where l: "l < length (unique xs)" "xs ! j = unique xs ! l"
      "sample_register [] xs ! j = int l + 1"
    using sample_register_index[OF assms(2)] by blast
  have "unique xs ! k = unique xs ! l \<longleftrightarrow> k = l"
    using k(1) l(1) by (simp add: nth_eq_iff_index_eq)
  then show ?thesis using k l by simp
qed

lemma sample_register_bounds:
  assumes "i < length xs"
  shows "1 \<le> sample_register [] xs ! i" "sample_register [] xs ! i \<le> int (card (set xs))"
proof -
  obtain k where k: "k < length (unique xs)" "sample_register [] xs ! i = int k + 1"
    using sample_register_index[OF assms] by blast
  then show "1 \<le> sample_register [] xs ! i" by simp
  show "sample_register [] xs ! i \<le> int (card (set xs))"
    using k by (simp add: length_unique)
qed

lemma sample_register_set: "set (sample_register [] xs) = {1..int (card (set xs))}"
proof (intro equalityI subsetI)
  fix p assume "p \<in> set (sample_register [] xs)"
  then obtain i where "i < length xs" "sample_register [] xs ! i = p"
    by (auto simp: in_set_conv_nth)
  then show "p \<in> {1..int (card (set xs))}"
    using sample_register_bounds[of i xs] by auto
next
  fix p assume p: "p \<in> {1..int (card (set xs))}"
  define k where "k = nat (p - 1)"
  have k: "k < length (unique xs)" "p = int k + 1"
    using p by (auto simp: k_def length_unique)
  then have "unique xs ! k \<in> set xs" by (metis nth_mem set_unique)
  then obtain i where i: "i < length xs" "xs ! i = unique xs ! k"
    by (auto simp: in_set_conv_nth)
  then have "sample_register [] xs ! i = p"
    using sample_register_nth[OF reg_inv_empty, of i xs k] k by simp
  then show "p \<in> set (sample_register [] xs)"
    using i(1) by (metis length_sample_register nth_mem)
qed

section \<open>What \<^verbatim>\<open>add_dest\<close> returns\<close>

lemma add_dest_loop_register:
  "\<not> 1 < n \<Longrightarrow>
   add_dest_loop C n dl dt S rows =
     Inr (map2 (\<lambda>r p. join_dest r dl dt (wrap_position C p)) rows
            (sample_register S (map Sample rows)))"
  by (induction rows arbitrary: S) (auto split: prod.splits)

lemma add_dest_ignores_dest_start:
  "add_dest get_wells df dest_labware dtype dstart
     = add_dest get_wells df dest_labware dtype dstart'"
  by (simp add: add_dest_def)

lemma add_dest_loop_NameError:
  "1 < n \<Longrightarrow> rows \<noteq> [] \<Longrightarrow>
   add_dest_loop C n dl dt S rows = Inl (NameError ''orig_dest_labware'')"
  by (cases rows) (auto split: prod.splits)

lemma add_dest_InrD:
  assumes "snd (add_dest gw df dl dt ds) = Inr out"
  shows "\<exists>C. gw dt = Some C \<and> C \<noteq> 0 \<and>
             (df = [] \<or> \<not> 1 < n_dest_plates (int (length df)) C) \<and>
             out = map2 (\<lambda>r p. join_dest r dl dt (wrap_position C p)) df
                     (sample_register [] (map Sample df))"
proof (cases "gw dt")
  case None
  with assms show ?thesis by (simp add: add_dest_def)
next
  case (Some C)
  show ?thesis
  proof (cases "C = 0")
    case True
    with Some assms show ?thesis by (simp add: add_dest_def)
  next
    case False
    let ?n = "n_dest_plates (int (length df)) C"
    from Some False assms
    have loop: "add_dest_loop C ?n dl dt [] df = Inr out"
      by (simp add: add_dest_def Let_def)
    show ?thesis
    proof (cases "1 < ?n")
      case True
      then have "df = []" using loop add_dest_loop_NameError[of ?n df C dl dt "[]"] by auto
      with loop Some False show ?thesis by auto
    next
      case False2: False
      then show ?thesis using loop Some False add_dest_loop_register[of ?n C dl dt "[]" df]
        by auto
    qed
  qed
qed

lemma wrap_position_range:
  "0 < C \<Longrightarrow> 1 \<le> wrap_position C p \<and> wrap_position C p \<le> C"
proof -
  assume C: "0 < C"
  have "0 \<le> p mod C" "p mod C < C" using C by simp_all
  then show ?thesis by (auto simp: wrap_position_def)
qed

lemma wrap_position_id: "1 \<le> p \<Longrightarrow> p < C \<Longrightarrow> wrap_position C p = p"
  by (simp add: wrap_position_def)

lemma add_dest_rows:
  assumes "snd (add_dest gw df dl dt ds) = Inr out"
  shows "\<exists>C. gw dt = Some C \<and> C \<noteq> 0 \<and> length out = length df \<and>
             (df \<noteq> [] \<longrightarrow> \<not> 1 < n_dest_plates (int (length df)) C) \<and>
             (\<forall>i<length df.
                out ! i = join_dest (df ! i) dl dt
                            (wrap_position C (sample_register [] (map Sample df) ! i)))"
proof -
  from add_dest_InrD[OF assms] obtain C where C: "gw dt = Some C" "C \<noteq> 0"
    "df = [] \<or> \<not> 1 < n_dest_plates (int (length df)) C"
    "out = map2 (\<lambda>r p. join_dest r dl dt (wrap_position C p)) df
             (sample_register [] (map Sample df))"
    by blast
  have "length out = length df" using C(4) by simp
  moreover have "\<forall>i<length df.
        out ! i = join_dest (df ! i) dl dt
                    (wrap_position C (sample_register [] (map Sample df) ! i))"
    using C(4) by simp
  ultimately show ?thesis using C(1-3) by blast
qed

lemma join_dest_sel [simp]:
  "Sample (join_dest r dl dt p) = Sample r"
  "labware_name (join_dest r dl dt p) = labware_name r"
  "labware_type (join_dest r dl dt p) = labware_type r"
  "Well (join_dest r dl dt p) = Well r"
  "TECAN_dest_labware_name (join_dest r dl dt p) = dl"
  "TECAN_dest_labware_type (join_dest r dl dt p) = dt"
  "TECAN_dest_target_position (join_dest r dl dt p) = p"
  by (simp_all add: join_dest_def)

lemma add_dest_same_sample:
  assumes ok: "snd (add_dest gw df dl dt ds) = Inr out"
    and r1: "r1 \<in> set out" and r2: "r2 \<in> set out" and eq: "Sample r1 = Sample r2"
  shows "assignment r1 = assignment r2"
proof -
  from add_dest_rows[OF ok] obtain C where len: "length out = length df"
    and nth: "\<And>i. i < length df \<Longrightarrow>
        out ! i = join_dest (df ! i) dl dt
                    (wrap_position C (sample_register [] (map Sample df) ! i))"
    by blast
  from r1 len obtain i where i: "i < length df" "out ! i = r1" by (auto simp: in_set_conv_nth)
  from r2 len obtain j where j: "j < length df" "out ! j = r2" by (auto simp: in_set_conv_nth)
  let ?ords = "sample_register [] (map Sample df)"
  have e1: "r1 = join_dest (df ! i) dl dt (wrap_position C (?ords ! i))"
    using nth[OF i(1)] i(2) by simp
  have e2: "r2 = join_dest (df ! j) dl dt (wrap_position C (?ords ! j))"
    using nth[OF j(1)] j(2) by simp
  have "Sample (df ! i) = Sample (df ! j)"
    using eq unfolding e1 e2 by simp
  then have "map Sample df ! i = map Sample df ! j"
    using i(1) j(1) by simp
  then have "?ords ! i = ?ords ! j"
    using sample_register_eq_iff[of i "map Sample df" j] i(1) j(1) by simp
  then show ?thesis unfolding e1 e2 by (simp add: assignment_def)
qed

lemma add_dest_position_is_ordinal:
  assumes ok: "snd (add_dest gw df dl dt ds) = Inr out"
    and C: "gw dt = Some C" "0 < C" and i: "i < length df"
  shows "out ! i = join_dest (df ! i) dl dt (sample_register [] (map Sample df) ! i)"
    "length df < nat C"
proof -
  let ?ords = "sample_register [] (map Sample df)"
  from add_dest_rows[OF ok] obtain C' where C': "gw dt = Some C'"
    and small: "df \<noteq> [] \<Longrightarrow> \<not> 1 < n_dest_plates (int (length df)) C'"
    and nth: "\<And>i. i < length df \<Longrightarrow>
        out ! i = join_dest (df ! i) dl dt (wrap_position C' (?ords ! i))"
    by blast
  have [simp]: "C' = C" using C C' by simp
  have "df \<noteq> []" using i by auto
  then have "\<not> 1 < n_dest_plates (int (length df)) C" using small by simp
  then have "\<not> C \<le> int (length df)"
    using n_dest_plates_large[of C "int (length df)"] C(2) by blast
  then have lt: "int (length df) < C" by simp
  then show "length df < nat C" by simp
  have "card (set (map Sample df)) \<le> length df"
    using card_length[of "map Sample df"] by simp
  then have "1 \<le> ?ords ! i" "?ords ! i < C"
    using sample_register_bounds[of i "map Sample df"] i lt by simp_all
  then have "wrap_position C (?ords ! i) = ?ords ! i" by (rule wrap_position_id)
  then show "out ! i = join_dest (df ! i) dl dt (?ords ! i)" using nth[OF i] by simp
qed

lemma example_add_dest:
  "snd (add_dest (one_plate_type ''T'' 96)
          [example_row ''A'' 1, example_row ''B'' 2, example_row ''A'' 3] ''Pooled DNA plate'' ''T'' 1)
   = Inr [join_dest (example_row ''A'' 1) ''Pooled DNA plate'' ''T'' 1,
          join_dest (example_row ''B'' 2) ''Pooled DNA plate'' ''T'' 2,
          join_dest (example_row ''A'' 3) ''Pooled DNA plate'' ''T'' 1]"
  by (simp add: add_dest_def one_plate_type_def n_dest_plates_def py_round_quot_def
      samples_lookup_def wrap_position_def example_row_def)

lemma add_dest_overflow:
  assumes "get_wells dtype = Some C" "0 < C" "C \<le> int (length df)"
  shows "add_dest get_wells df dest_labware dtype dstart
           = ([overflow_warning], Inl (NameError ''orig_dest_labware''))"
proof -
  have n: "1 < n_dest_plates (int (length df)) C"
    using assms(2,3) by (rule n_dest_plates_large)
  have "df \<noteq> []" using assms(2,3) by auto
  then show ?thesis
    using assms(1,2) n add_dest_loop_NameError[OF n, of df C dest_labware dtype "[]"]
    by (simp add: add_dest_def Let_def)
qed

section \<open>What \<^verbatim>\<open>pool_samples\<close> adds to the worklist\<close>

lemma replicate_loop_append:
  "replicate_loop rs vol lc nt gwl = gwl @ concat (map (\<lambda>r. replicate_cmds r vol lc nt) rs)"
  by (induction rs arbitrary: gwl) (simp_all add: Let_def gwl_add_def replicate_cmds_def)

lemma sample_loop_append:
  "sample_loop df ss vol lc nt gwl
     = gwl @ concat (map (\<lambda>s. sample_cmds (rows_of df s) vol lc nt) ss)"
  by (induction ss arbitrary: gwl)
     (simp_all add: Let_def gwl_add_def sample_cmds_def rows_of_def replicate_loop_append)

lemma pool_samples_closed:
  "pool_samples sort_values df gwl vol lc nt
     = gwl @ Comment ''Sample pooling'' #
         concat (map (\<lambda>s. sample_cmds (rows_of (sort_values df) s) vol lc nt)
                   (unique (map Sample (sort_values df))))"
  by (simp add: pool_samples_def Let_def gwl_add_def sample_loop_append)

lemma sample_cmds_keep_tips:
  "sample_cmds rs vol lc False
     = concat (map (\<lambda>r. [Aspirate (labware_name r) (labware_type r) (Well r) vol lc,
                          Dispense (TECAN_dest_labware_name r) (TECAN_dest_labware_type r)
                                   (TECAN_dest_target_position r) vol lc,
                          Flush]) rs) @ [Waste]"
  by (simp add: sample_cmds_def replicate_cmds_def)

lemma count_Flush_keep_tips:
  "length (filter (\<lambda>c. c = Flush) (sample_cmds rs vol lc False)) = length rs"
  unfolding sample_cmds_keep_tips by (induction rs) simp_all

lemma count_Waste_keep_tips:
  "length (filter (\<lambda>c. c = Waste) (sample_cmds rs vol lc False)) = 1"
  unfolding sample_cmds_keep_tips by (induction rs) simp_all

lemma three_replicates_run_eq:
  "three_replicates_run
   = ([], Inr [Comment ''Sample pooling'',
        Aspirate ''PCR_plate 1'' ''96 Well Eppendorf TwinTec PCR'' 1 30 ''X'',
        Dispense ''Pooled DNA plate'' ''T'' 1 30 ''X'', Flush,
        Aspirate ''PCR_plate 1'' ''96 Well Eppendorf TwinTec PCR'' 2 30 ''X'',
        Dispense ''Pooled DNA plate'' ''T'' 1 30 ''X'', Flush,
        Aspirate ''PCR_plate 1'' ''96 Well Eppendorf TwinTec PCR'' 3 30 ''X'',
        Dispense ''Pooled DNA plate'' ''T'' 1 30 ''X'', Flush,
        Waste])"
  by (simp add: three_replicates_run_def example_args_def main_def add_dest_def
      one_plate_type_def n_dest_plates_def py_round_quot_def
      samples_lookup_def wrap_position_def example_row_def join_dest_def
      check_rack_labels_named_def find_column_def replace_in_column_def
      replace_dot_def pool_samples_def gwl_add_def Let_def)

section \<open>The order in which \<^verbatim>\<open>pool_samples\<close> visits the samples\<close>

lemma index_of_less: "x \<in> set xs \<Longrightarrow> index_of xs x < length xs"
  by (induction xs) auto








lemma check_rack_labels_Sample [simp]:
  "map Sample (check_rack_labels d) = map Sample d"
  by (simp add: check_rack_labels_def)

lemma check_rack_labels_position [simp]:
  "map TECAN_dest_target_position (check_rack_labels d) = map TECAN_dest_target_position d"
  by (simp add: check_rack_labels_def)









section \<open>The labware names of the commands\<close>

lemma replace_dot_no_dot: "CHR ''.'' \<notin> set (replace_dot y)"
  by (auto simp: replace_dot_def)

lemma length_replace_dot: "length (replace_dot y) = length y"
  by (simp add: replace_dot_def)

lemma replace_dot_nth:
  "i < length y \<Longrightarrow>
   replace_dot y ! i = (if y ! i = CHR ''.'' then CHR ''_'' else y ! i)"
  by (simp add: replace_dot_def)

lemma set_sample_cmds:
  assumes "c \<in> set (sample_cmds rs vol lc nt)"
  shows "c = Waste \<or> c = Flush \<or>
         (\<exists>r\<in>set rs.
            c = Aspirate (labware_name r) (labware_type r) (Well r) vol lc \<or>
            c = Dispense (TECAN_dest_labware_name r) (TECAN_dest_labware_type r)
                         (TECAN_dest_target_position r) vol lc)"
  using assms by (auto simp: sample_cmds_def replicate_cmds_def split: if_splits)

lemma set_pool_samples:
  assumes "c \<in> set (pool_samples sort_values d [] vol lc nt)"
  shows "c = Comment ''Sample pooling'' \<or> c = Waste \<or> c = Flush \<or>
         (\<exists>r\<in>set (sort_values d).
            c = Aspirate (labware_name r) (labware_type r) (Well r) vol lc \<or>
            c = Dispense (TECAN_dest_labware_name r) (TECAN_dest_labware_type r)
                         (TECAN_dest_target_position r) vol lc)"
proof (cases "c = Comment ''Sample pooling''")
  case True
  then show ?thesis by simp
next
  case False
  with assms obtain s where
    "c \<in> set (sample_cmds (rows_of (sort_values d) s) vol lc nt)"
    unfolding pool_samples_closed by auto
  from set_sample_cmds[OF this] show ?thesis
    by (auto simp: rows_of_def)
qed

lemma find_column_default:
  assumes "usable_columns a" and "sample_labware_name a = ''labware_name''"
  shows "find_column a ''labware_name'' = Some Labware_name_column"
  using assms by (auto simp: usable_columns_def find_column_def)

lemma check_rack_labels_named_default:
  assumes "usable_columns a" and "sample_labware_name a = ''labware_name''"
  shows "check_rack_labels_named a df_samp = Inr (check_rack_labels df_samp)"
  unfolding check_rack_labels_named_def find_column_default[OF assms]
  by (simp add: replace_in_column_def check_rack_labels_def)

lemma find_column_missing:
  assumes "''labware_name'' \<notin> set [sample_col a, include_col a, sample_labware_name a,
                                     sample_labware_type a, position_col a]"
  shows "check_rack_labels_named a df_samp = Inl (KeyError ''labware_name'')"
  using assms by (auto simp: check_rack_labels_named_def find_column_def)

lemma main_InrD:
  assumes "main gw glw sort_values df_samp a = (stderr, Inr cmds)"
    and "usable_columns a" and "sample_labware_name a = ''labware_name''"
  shows "\<exists>df2.
           snd (add_dest gw (filter (\<lambda>r. Call r \<in> set [''success'', ''pass'', ''include''])
                               df_samp)
                  (dest_name a) (dest_type a) (dest_start a)) = Inr df2 \<and>
           cmds = pool_samples sort_values (check_rack_labels df2) []
                    (volume a) (liq_cls a) (new_tips a)"
  using assms(1) unfolding main_def check_rack_labels_named_default[OF assms(2,3)]
  by (auto simp: Let_def split: prod.splits sum.splits if_splits)

lemma check_rack_labels_row:
  assumes "r \<in> set (check_rack_labels d)"
  shows "\<exists>r0\<in>set d.
           labware_name r = replace_dot (labware_name r0) \<and>
           TECAN_dest_labware_name r = replace_dot (TECAN_dest_labware_name r0) \<and>
           labware_type r = labware_type r0 \<and> Well r = Well r0"
  using assms by (auto simp: check_rack_labels_def)

lemma add_dest_row:
  assumes ok: "snd (add_dest gw df dl dt ds) = Inr out" and r: "r \<in> set out"
  shows "TECAN_dest_labware_name r = dl \<and>
         (\<exists>r1\<in>set df. labware_name r = labware_name r1)"
proof -
  from add_dest_rows[OF ok] obtain C where len: "length out = length df"
    and nth: "\<And>i. i < length df \<Longrightarrow>
        out ! i = join_dest (df ! i) dl dt
                    (wrap_position C (sample_register [] (map Sample df) ! i))"
    by blast
  from r len obtain i where i: "i < length df" "out ! i = r"
    by (auto simp: in_set_conv_nth)
  have e: "r = join_dest (df ! i) dl dt
                 (wrap_position C (sample_register [] (map Sample df) ! i))"
    using nth[OF i(1)] i(2) by simp
  have "df ! i \<in> set df" using i(1) by simp
  then show ?thesis unfolding e by auto
qed

lemma emitted_rack_label:
  assumes run: "main gw glw sort_values df_samp a = (stderr, Inr cmds)"
    and cols: "usable_columns a" "sample_labware_name a = ''labware_name''"
    and rows: "\<forall>d. set (sort_values d) \<subseteq> set d"
    and c: "c = Aspirate l t p v k \<or> c = Dispense l t p v k" "c \<in> set cmds"
  shows "(\<forall>t p v k. c = Aspirate l t p v k \<longrightarrow>
            (\<exists>r\<in>set df_samp. l = replace_dot (labware_name r))) \<and>
         (\<forall>t p v k. c = Dispense l t p v k \<longrightarrow> l = replace_dot (dest_name a))"
proof -
  let ?df1 = "filter (\<lambda>r. Call r \<in> set [''success'', ''pass'', ''include'']) df_samp"
  from main_InrD[OF run cols] obtain df2 where
    ok: "snd (add_dest gw ?df1 (dest_name a) (dest_type a) (dest_start a)) = Inr df2"
    and cmds: "cmds = pool_samples sort_values (check_rack_labels df2) []
                        (volume a) (liq_cls a) (new_tips a)"
    by blast
  from c(2) have "c \<in> set (pool_samples sort_values (check_rack_labels df2) []
                        (volume a) (liq_cls a) (new_tips a))"
    unfolding cmds .
  from set_pool_samples[OF this] c(1)
  obtain r where r: "r \<in> set (sort_values (check_rack_labels df2))"
    and cr: "c = Aspirate (labware_name r) (labware_type r) (Well r) (volume a) (liq_cls a) \<or>
         c = Dispense (TECAN_dest_labware_name r) (TECAN_dest_labware_type r)
                      (TECAN_dest_target_position r) (volume a) (liq_cls a)"
    by auto
  from r rows have "r \<in> set (check_rack_labels df2)" by blast
  from check_rack_labels_row[OF this] obtain r0 where r0: "r0 \<in> set df2"
    "labware_name r = replace_dot (labware_name r0)"
    "TECAN_dest_labware_name r = replace_dot (TECAN_dest_labware_name r0)"
    by blast
  from add_dest_row[OF ok r0(1)] obtain r1 where r1: "r1 \<in> set ?df1"
    "labware_name r0 = labware_name r1" "TECAN_dest_labware_name r0 = dest_name a"
    by blast
  have "r1 \<in> set df_samp" using r1(1) by simp
  then show ?thesis using cr r0 r1 by auto
qed

text \<open>
  With the default name of the source labware column the cleaning reaches every name
  that the commands carry: the labware name of every aspirate is the source labware name
  of an input row and that of every dispense is the destination labware name of the run,
  each with every \<open>.\<close> replaced by \<open>_\<close> and nothing else changed.
\<close>

lemma default_column_labels_have_no_dot:
  assumes "main get_wells get_labware_wells sort_values df_samp a = (stderr, Inr cmds)"
    and "usable_columns a" and "sample_labware_name a = ''labware_name''"
    and "\<forall>d. set (sort_values d) \<subseteq> set d"
  shows "(\<forall>l t p v k. Aspirate l t p v k \<in> set cmds \<longrightarrow>
            CHR ''.'' \<notin> set l \<and> (\<exists>r\<in>set df_samp. l = replace_dot (labware_name r))) \<and>
         (\<forall>l t p v k. Dispense l t p v k \<in> set cmds \<longrightarrow>
            CHR ''.'' \<notin> set l \<and> l = replace_dot (dest_name a)) \<and>
         (\<forall>y. length (replace_dot y) = length y \<and>
              (\<forall>i<length y.
                 replace_dot y ! i = (if y ! i = CHR ''.'' then CHR ''_'' else y ! i)))"
proof (intro conjI allI impI)
  fix l t p v k assume "Aspirate l t p v k \<in> set cmds"
  from emitted_rack_label[OF assms _ this, of l t p v k]
  show "\<exists>r\<in>set df_samp. l = replace_dot (labware_name r)" by simp
  then show "CHR ''.'' \<notin> set l" using replace_dot_no_dot by blast
next
  fix l t p v k assume "Dispense l t p v k \<in> set cmds"
  from emitted_rack_label[OF assms _ this, of l t p v k]
  show "l = replace_dot (dest_name a)" by simp
  then show "CHR ''.'' \<notin> set l" using replace_dot_no_dot by blast
next
  fix y :: string show "length (replace_dot y) = length y" by (rule length_replace_dot)
next
  fix y :: string and i assume "i < length y"
  then show "replace_dot y ! i = (if y ! i = CHR ''.'' then CHR ''_'' else y ! i)"
    by (rule replace_dot_nth)
qed

section \<open>The claims\<close>

text \<open>
  Claim C8. For every sequence of sample names, the Sample Register (the dictionary
  \<^verbatim>\<open>samples\<close> of \<^verbatim>\<open>add_dest\<close>, started empty) gives every row a number: a name that is
  the \<open>k\<close>-th distinct name in order of first appearance (counting from 0) gets the
  number \<open>k + 1\<close> at each of its rows, so a new name gets the next unused number and a
  name seen again gets its earlier number; the numbers used are exactly \<open>1..K\<close> for
  \<open>K\<close> distinct names.
\<close>

theorem sample_register_first_appearance:
  "length (sample_register [] names) = length names \<and>
   (\<forall>i<length names. \<forall>k<length (unique names).
       names ! i = unique names ! k \<longrightarrow> sample_register [] names ! i = int k + 1) \<and>
   length (unique names) = card (set names) \<and>
   set (sample_register [] names) = {1..int (card (set names))}"
  using sample_register_nth[OF reg_inv_empty, of _ names]
  by (simp add: length_unique sample_register_set)

theorem sample_register_first_appearance_witness:
  "unique [''b'', ''a'', ''b'', ''c'', ''a''] = [''b'', ''a'', ''c''] \<and>
   sample_register [] [''b'', ''a'', ''b'', ''c'', ''a''] = [1, 2, 1, 3, 2] \<and>
   set (sample_register [] [''b'', ''a'', ''b'', ''c'', ''a'']) = {1..int (card (set [''b'', ''a'', ''b'', ''c'', ''a'']))}"
  using sample_register_first_appearance[of "[''b'', ''a'', ''b'', ''c'', ''a'']"]
  by (simp add: samples_lookup_def)

text \<open>
  Claim C4. When \<^verbatim>\<open>add_dest\<close> returns a table, any two of its rows with the same sample
  name have the same destination labware name, labware type and target position; and
  the rows of one sample name have exactly one DestinationAssignment between them.
\<close>

theorem same_sample_same_destination:
  assumes "snd (add_dest get_wells df dest_labware dtype dstart) = Inr out"
  shows "(\<forall>r1\<in>set out. \<forall>r2\<in>set out.
            Sample r1 = Sample r2 \<longrightarrow>
              TECAN_dest_labware_name r1 = TECAN_dest_labware_name r2 \<and>
              TECAN_dest_labware_type r1 = TECAN_dest_labware_type r2 \<and>
              TECAN_dest_target_position r1 = TECAN_dest_target_position r2) \<and>
         (\<forall>r\<in>set out.
            assignment ` {r' \<in> set out. Sample r' = Sample r} = {assignment r})"
proof (intro conjI ballI impI)
  fix r1 r2 assume "r1 \<in> set out" "r2 \<in> set out" "Sample r1 = Sample r2"
  then have "assignment r1 = assignment r2" by (rule add_dest_same_sample[OF assms])
  then show "TECAN_dest_labware_name r1 = TECAN_dest_labware_name r2"
    "TECAN_dest_labware_type r1 = TECAN_dest_labware_type r2"
    "TECAN_dest_target_position r1 = TECAN_dest_target_position r2"
    by (simp_all add: assignment_def)
next
  fix r assume r: "r \<in> set out"
  have "\<And>r'. r' \<in> set out \<Longrightarrow> Sample r' = Sample r \<Longrightarrow> assignment r' = assignment r"
    using add_dest_same_sample[OF assms _ r] by blast
  then show "assignment ` {r' \<in> set out. Sample r' = Sample r} = {assignment r}"
    using r by blast
qed

theorem same_sample_same_destination_witness:
  "snd (add_dest (one_plate_type ''T'' 96)
          [example_row ''A'' 1, example_row ''B'' 2, example_row ''A'' 3] ''Pooled DNA plate'' ''T'' 1)
   = Inr [join_dest (example_row ''A'' 1) ''Pooled DNA plate'' ''T'' 1,
          join_dest (example_row ''B'' 2) ''Pooled DNA plate'' ''T'' 2,
          join_dest (example_row ''A'' 3) ''Pooled DNA plate'' ''T'' 1] \<and>
   assignment (join_dest (example_row ''A'' 1) ''Pooled DNA plate'' ''T'' 1)
     = assignment (join_dest (example_row ''A'' 3) ''Pooled DNA plate'' ''T'' 1)"
  using same_sample_same_destination[OF example_add_dest] example_add_dest
  by (simp add: assignment_def)

text \<open>
  Claim C5. When \<^verbatim>\<open>add_dest\<close> returns a table for a plate type with a positive number
  of wells, two rows with different sample names have different target positions, and
  so they differ in the pair of destination plate and target position.
\<close>

theorem distinct_samples_distinct_wells:
  assumes "snd (add_dest get_wells df dest_labware dtype dstart) = Inr out"
    and "get_wells dtype = Some C" and "0 < C"
    and "r1 \<in> set out" and "r2 \<in> set out" and "Sample r1 \<noteq> Sample r2"
  shows "TECAN_dest_target_position r1 \<noteq> TECAN_dest_target_position r2 \<and>
         (TECAN_dest_labware_name r1, TECAN_dest_target_position r1)
           \<noteq> (TECAN_dest_labware_name r2, TECAN_dest_target_position r2)"
proof -
  let ?ords = "sample_register [] (map Sample df)"
  from add_dest_rows[OF assms(1)] have len: "length out = length df" by blast
  from assms(4) len obtain i where i: "i < length df" "out ! i = r1"
    by (auto simp: in_set_conv_nth)
  from assms(5) len obtain j where j: "j < length df" "out ! j = r2"
    by (auto simp: in_set_conv_nth)
  have r1: "r1 = join_dest (df ! i) dest_labware dtype (?ords ! i)"
    using add_dest_position_is_ordinal(1)[OF assms(1-3) i(1)] i(2) by simp
  have r2: "r2 = join_dest (df ! j) dest_labware dtype (?ords ! j)"
    using add_dest_position_is_ordinal(1)[OF assms(1-3) j(1)] j(2) by simp
  have "Sample (df ! i) \<noteq> Sample (df ! j)"
    using assms(6) unfolding r1 r2 by simp
  then have "map Sample df ! i \<noteq> map Sample df ! j"
    using i(1) j(1) by simp
  then have "?ords ! i \<noteq> ?ords ! j"
    using sample_register_eq_iff[of i "map Sample df" j] i(1) j(1) by simp
  then show ?thesis unfolding r1 r2 by simp
qed

theorem distinct_samples_distinct_wells_witness:
  "snd (add_dest (one_plate_type ''T'' 96)
          [example_row ''A'' 1, example_row ''B'' 2, example_row ''A'' 3] ''Pooled DNA plate'' ''T'' 1)
   = Inr [join_dest (example_row ''A'' 1) ''Pooled DNA plate'' ''T'' 1,
          join_dest (example_row ''B'' 2) ''Pooled DNA plate'' ''T'' 2,
          join_dest (example_row ''A'' 3) ''Pooled DNA plate'' ''T'' 1] \<and>
   one_plate_type ''T'' 96 ''T'' = Some 96 \<and> (0::int) < 96 \<and>
   Sample (join_dest (example_row ''A'' 1) ''Pooled DNA plate'' ''T'' 1)
     \<noteq> Sample (join_dest (example_row ''B'' 2) ''Pooled DNA plate'' ''T'' 2) \<and>
   TECAN_dest_target_position (join_dest (example_row ''A'' 1) ''Pooled DNA plate'' ''T'' 1)
     \<noteq> TECAN_dest_target_position (join_dest (example_row ''B'' 2) ''Pooled DNA plate'' ''T'' 2)"
  using distinct_samples_distinct_wells[OF example_add_dest, of 96
          "join_dest (example_row ''A'' 1) ''Pooled DNA plate'' ''T'' 1"
          "join_dest (example_row ''B'' 2) ''Pooled DNA plate'' ''T'' 2"] example_add_dest
  by (simp add: one_plate_type_def example_row_def)

text \<open>
  Claim C9. For a destination plate type with \<open>C \<ge> 1\<close> wells, every target position in
  the table that \<^verbatim>\<open>add_dest\<close> returns lies between 1 and \<open>C\<close>; it is never 0.
\<close>

theorem target_position_in_range:
  assumes "get_wells dtype = Some C" and "1 \<le> C"
    and "snd (add_dest get_wells df dest_labware dtype dstart) = Inr out"
    and "r \<in> set out"
  shows "1 \<le> TECAN_dest_target_position r \<and> TECAN_dest_target_position r \<le> C \<and>
         TECAN_dest_target_position r \<noteq> 0"
proof -
  from add_dest_rows[OF assms(3)]
  obtain C' where C': "get_wells dtype = Some C'" "length out = length df"
    and nth: "\<And>i. i < length df \<Longrightarrow>
        out ! i = join_dest (df ! i) dest_labware dtype
                    (wrap_position C' (sample_register [] (map Sample df) ! i))"
    by blast
  have [simp]: "C' = C" using assms(1) C'(1) by simp
  from assms(4) C'(2) obtain i where i: "i < length df" "out ! i = r"
    by (auto simp: in_set_conv_nth)
  have "0 < C" using assms(2) by simp
  have e: "r = join_dest (df ! i) dest_labware dtype
                (wrap_position C (sample_register [] (map Sample df) ! i))"
    using nth[OF i(1)] i(2) by simp
  from wrap_position_range[OF \<open>0 < C\<close>, of "sample_register [] (map Sample df) ! i"]
  show ?thesis unfolding e by simp
qed

theorem target_position_in_range_witness:
  "one_plate_type ''T'' 96 ''T'' = Some 96 \<and> (1::int) \<le> 96 \<and>
   snd (add_dest (one_plate_type ''T'' 96)
          [example_row ''A'' 1, example_row ''B'' 2, example_row ''A'' 3] ''Pooled DNA plate'' ''T'' 1)
   = Inr [join_dest (example_row ''A'' 1) ''Pooled DNA plate'' ''T'' 1,
          join_dest (example_row ''B'' 2) ''Pooled DNA plate'' ''T'' 2,
          join_dest (example_row ''A'' 3) ''Pooled DNA plate'' ''T'' 1] \<and>
   1 \<le> TECAN_dest_target_position (join_dest (example_row ''B'' 2) ''Pooled DNA plate'' ''T'' 2) \<and>
   TECAN_dest_target_position (join_dest (example_row ''B'' 2) ''Pooled DNA plate'' ''T'' 2) \<le> 96"
  using target_position_in_range[OF _ _ example_add_dest, of 96
          "join_dest (example_row ''B'' 2) ''Pooled DNA plate'' ''T'' 2"] example_add_dest
  by (simp add: one_plate_type_def)

text \<open>
  Claim C7. When the Position Directory has no number of wells for the destination plate
  type, the run ends with the error that \<^verbatim>\<open>add_dest\<close> raises for the unknown labware;
  nothing is printed and no worklist is produced.
\<close>

theorem unknown_dest_type_aborts:
  "get_wells (dest_type a) = None \<Longrightarrow>
   main get_wells get_labware_wells sort_values df_samp a
     = ([], Inl (ValueError (no_wells_msg (dest_type a))))"
  by (simp add: main_def add_dest_def)

theorem unknown_dest_type_aborts_witness:
  "one_plate_type ''96 Well Eppendorf TwinTec PCR'' 96 ''no such plate'' = None \<and>
   main (one_plate_type ''96 Well Eppendorf TwinTec PCR'' 96) (\<lambda>t. PyInt 96)
        (sort_key TECAN_dest_target_position)
        [example_row ''A'' 1, example_row ''B'' 2]
        \<lparr>sample_col = ''Sample'', include_col = ''Call'', sample_labware_name = ''labware_name'',
         sample_labware_type = ''labware_type'', position_col = ''Well'',
         dest_name = ''Pooled DNA plate'', dest_type = ''no such plate'', dest_start = 1,
         volume = 30, liq_cls = ''Water Free Single No-cLLD'', new_tips = False\<rparr>
     = ([], Inl (ValueError (no_wells_msg ''no such plate'')))"
  using unknown_dest_type_aborts[of "one_plate_type ''96 Well Eppendorf TwinTec PCR'' 96"
      "\<lparr>sample_col = ''Sample'', include_col = ''Call'', sample_labware_name = ''labware_name'',
         sample_labware_type = ''labware_type'', position_col = ''Well'',
         dest_name = ''Pooled DNA plate'', dest_type = ''no such plate'', dest_start = 1,
         volume = 30, liq_cls = ''Water Free Single No-cLLD'', new_tips = False\<rparr>"
      "\<lambda>t. PyInt 96" "sort_key TECAN_dest_target_position"
      "[example_row ''A'' 1, example_row ''B'' 2]"]
  by (simp add: one_plate_type_def)

text \<open>
  Claim C3, at its own example: a plate of 4 wells, 5 distinct samples, offset 1. The
  allocator prints the overflow warning and then raises \<^verbatim>\<open>NameError\<close> at the first row,
  because the plate name is formatted from the unbound name \<^verbatim>\<open>orig_dest_labware\<close>; no
  sample is assigned to a second plate.
\<close>

theorem overflow_raises_NameError:
  "add_dest (one_plate_type ''4 wells'' 4)
     [example_row ''A'' 1, example_row ''B'' 2, example_row ''C'' 3, example_row ''D'' 4,
      example_row ''E'' 5] ''Pooled DNA plate'' ''4 wells'' 1
   = ([overflow_warning], Inl (NameError ''orig_dest_labware''))"
  by (rule add_dest_overflow[where C = 4]) (simp_all add: one_plate_type_def)

text \<open>
  Claim C1, at one sample on a plate of 96 wells with the starting offset 2: the
  allocator assigns target position 1, where the formula of the specification gives 2.
  The starting offset takes no part in the position that \<^verbatim>\<open>add_dest\<close> computes.
\<close>

theorem dest_start_not_applied:
  "snd (add_dest (one_plate_type ''T'' 96) [example_row ''A'' 1] ''Pooled DNA plate'' ''T'' 2)
     = Inr [join_dest (example_row ''A'' 1) ''Pooled DNA plate'' ''T'' 1] \<and>
   spec_target_position 96 2 1 = 2 \<and> spec_plate_instance 96 2 1 = 1"
  by (simp add: add_dest_def one_plate_type_def n_dest_plates_def py_round_quot_def
      samples_lookup_def wrap_position_def spec_target_position_def spec_plate_instance_def
      spec_absolute_index_def)

text \<open>
  Claim C2. With \<^verbatim>\<open>new_tips\<close> false the claim has a flush after every replicate except
  the last of a sample. In the run of one sample with three replicates the worklist has
  eleven commands: the dispense of the last replicate (index 8) is followed by a flush
  (index 9) and then by the tip discard (index 10), so there are three flushes, not two.
\<close>

theorem keep_tips_counterexample:
  "fst three_replicates_run = [] \<and>
   length (projr (snd three_replicates_run)) = 11 \<and>
   projr (snd three_replicates_run) ! 8 = Dispense ''Pooled DNA plate'' ''T'' 1 30 ''X'' \<and>
   projr (snd three_replicates_run) ! 9 = Flush \<and>
   projr (snd three_replicates_run) ! 10 = Waste \<and>
   count_list (projr (snd three_replicates_run)) Flush = 3 \<and>
   count_list (projr (snd three_replicates_run)) Flush \<noteq> 2"
  unfolding three_replicates_run_eq by simp

text \<open>
  Claim C2 as amended. With \<^verbatim>\<open>new_tips\<close> false, \<^verbatim>\<open>pool_samples\<close> adds, after the comment
  and for each sample in turn, an aspirate, a dispense and a flush for every replicate
  of the sample, the last replicate included, and then one tip discard. A sample with
  \<open>n\<close> replicates has \<open>n\<close> flushes and one discard: three flushes for three replicates.
\<close>

theorem keep_tips_flush_after_every_replicate:
  "pool_samples sort_values df gwl vol lc False
     = gwl @ Comment ''Sample pooling'' #
         concat (map (\<lambda>s. sample_cmds (rows_of (sort_values df) s) vol lc False)
                   (unique (map Sample (sort_values df)))) \<and>
   sample_cmds rs vol lc False
     = concat (map (\<lambda>r. [Aspirate (labware_name r) (labware_type r) (Well r) vol lc,
                          Dispense (TECAN_dest_labware_name r) (TECAN_dest_labware_type r)
                                   (TECAN_dest_target_position r) vol lc,
                          Flush]) rs) @ [Waste] \<and>
   length (filter (\<lambda>c. c = Flush) (sample_cmds rs vol lc False)) = length rs \<and>
   length (filter (\<lambda>c. c = Waste) (sample_cmds rs vol lc False)) = 1"
  using pool_samples_closed[of sort_values df gwl vol lc False]
    sample_cmds_keep_tips[of rs vol lc] count_Flush_keep_tips[of rs vol lc]
    count_Waste_keep_tips[of rs vol lc]
  by blast

theorem keep_tips_flush_after_every_replicate_witness:
  "length (filter (\<lambda>c. c = Flush)
     (sample_cmds [join_dest (example_row ''A'' 1) ''Pooled DNA plate'' ''T'' 1,
                   join_dest (example_row ''A'' 2) ''Pooled DNA plate'' ''T'' 1,
                   join_dest (example_row ''A'' 3) ''Pooled DNA plate'' ''T'' 1] 30 ''X'' False)) = 3 \<and>
   length (filter (\<lambda>c. c = Waste)
     (sample_cmds [join_dest (example_row ''A'' 1) ''Pooled DNA plate'' ''T'' 1,
                   join_dest (example_row ''A'' 2) ''Pooled DNA plate'' ''T'' 1,
                   join_dest (example_row ''A'' 3) ''Pooled DNA plate'' ''T'' 1] 30 ''X'' False)) = 1"
  using keep_tips_flush_after_every_replicate[of id "[]" "[]" 30 "''X''"
     "[join_dest (example_row ''A'' 1) ''Pooled DNA plate'' ''T'' 1,
       join_dest (example_row ''A'' 2) ''Pooled DNA plate'' ''T'' 1,
       join_dest (example_row ''A'' 3) ''Pooled DNA plate'' ''T'' 1]"]
  by simp



text \<open>
  Claim C10, at a run with \<^verbatim>\<open>--sample-labware-name plate --include-col labware_name\<close> and
  one row whose source labware is named \<^verbatim>\<open>PCR.plate 1\<close>. \<^verbatim>\<open>check_rack_labels\<close> cleans the
  column named \<^verbatim>\<open>labware_name\<close>, here the include column, and \<^verbatim>\<open>pool_samples\<close> reads the
  source labware from the column \<^verbatim>\<open>plate\<close>: the aspirate of the worklist carries the name
  with its \<open>.\<close>. With \<^verbatim>\<open>--sample-labware-name plate\<close> alone no column is named
  \<^verbatim>\<open>labware_name\<close> and the run ends with \<^verbatim>\<open>KeyError\<close>.
\<close>

theorem renamed_column_keeps_dot:
  "renamed_columns_run
     = ([], Inr [Comment ''Sample pooling'',
                 Aspirate ''PCR.plate 1'' ''96 Well Eppendorf TwinTec PCR'' 1 30 ''X'',
                 Dispense ''Pooled DNA plate'' ''T'' 1 30 ''X'', Flush, Waste]) \<and>
   CHR ''.'' \<in> set ''PCR.plate 1'' \<and>
   missing_column_run = ([], Inl (KeyError ''labware_name''))"
  by (simp add: renamed_columns_run_def missing_column_run_def example_args_def main_def
      add_dest_def one_plate_type_def n_dest_plates_def py_round_quot_def
      samples_lookup_def wrap_position_def example_row_def join_dest_def
      check_rack_labels_named_def find_column_def replace_in_column_def
      replace_dot_def pool_samples_def gwl_add_def Let_def)

end
